theory Spec2Isabelle
  imports Complex_Main "HOL-Library.Sublist"
begin

section \<open>Shared JavaScript notions\<close>

text \<open>
  JavaScript numbers that reach this code are finite doubles (they come from form inputs
  and from parsed JSON); every finite double is a rational, and \<open>>=\<close> on doubles is the
  order of the rationals, so numbers are modelled as \<^typ>\<open>rat\<close>. The literals
  \<^verbatim>\<open>2.0\<close> and \<^verbatim>\<open>0.8\<close> are the rationals 2 and 4/5: no double lies between 4/5
  and the double that \<^verbatim>\<open>0.8\<close> denotes, so on doubles the two comparisons agree.
  Strings are \<^typ>\<open>string\<close>; a character outside ASCII is written as its UTF-8
  bytes.
\<close>

text \<open>\<^verbatim>\<open>Array.prototype.join\<close> on an array of strings.\<close>

fun join :: "string \<Rightarrow> string list \<Rightarrow> string" where
  "join sep [] = []"
| "join sep [x] = x"
| "join sep (x # y # ys) = x @ sep @ join sep (y # ys)"

text \<open>\<^verbatim>\<open>a || b\<close> on optional strings: the empty string and an absent value are falsy.\<close>

definition truthy :: "string option \<Rightarrow> bool" where
  "truthy v = (case v of None \<Rightarrow> False | Some s \<Rightarrow> s \<noteq> [])"

definition or_else :: "string option \<Rightarrow> string \<Rightarrow> string" where
  "or_else v d = (case v of None \<Rightarrow> d | Some s \<Rightarrow> if s = [] then d else s)"

text \<open>
  What one \<^verbatim>\<open>await fetch(...)\<close> followed by \<^verbatim>\<open>await res.json()\<close> can do: the request
  is rejected (transport failure), or a response arrives with its \<^verbatim>\<open>ok\<close> flag and a body
  that parses to a JSON object (\<open>Some\<close>) or does not parse (\<open>None\<close>).
\<close>

datatype 'd fetch_outcome = Rejected | Response bool "'d option"

section \<open>Intake form (PatientForm)\<close>

text \<open>The keys of \<^verbatim>\<open>FormData\<close> and their names as strings.\<close>

datatype key = K_age | K_sex | K_cp | K_trestbps | K_chol | K_fbs | K_restecg
  | K_thalach | K_exang | K_oldpeak | K_slope | K_ca | K_thal | K_target

fun key_name :: "key \<Rightarrow> string" where
  "key_name K_age = ''age''"
| "key_name K_sex = ''sex''"
| "key_name K_cp = ''cp''"
| "key_name K_trestbps = ''trestbps''"
| "key_name K_chol = ''chol''"
| "key_name K_fbs = ''fbs''"
| "key_name K_restecg = ''restecg''"
| "key_name K_thalach = ''thalach''"
| "key_name K_exang = ''exang''"
| "key_name K_oldpeak = ''oldpeak''"
| "key_name K_slope = ''slope''"
| "key_name K_ca = ''ca''"
| "key_name K_thal = ''thal''"
| "key_name K_target = ''target''"

text \<open>
  A field holds a number or the empty string (\<^verbatim>\<open>number | ""\<close>); the code also tests for
  \<^verbatim>\<open>null\<close> and \<^verbatim>\<open>undefined\<close>, so these are vals of the model too.
\<close>

datatype fval = EmptyStr | Null | Undefined | Num rat

record FormData =
  age :: fval
  sex :: fval
  cp :: fval
  trestbps :: fval
  chol :: fval
  fbs :: fval
  restecg :: fval
  thalach :: fval
  exang :: fval
  oldpeak :: fval
  slope :: fval
  ca :: fval
  thal :: fval
  target :: fval


text \<open>\<^verbatim>\<open>formData[f]\<close>.\<close>

fun getf :: "FormData \<Rightarrow> key \<Rightarrow> fval" where
  "getf d K_age = age d"
| "getf d K_sex = sex d"
| "getf d K_cp = cp d"
| "getf d K_trestbps = trestbps d"
| "getf d K_chol = chol d"
| "getf d K_fbs = fbs d"
| "getf d K_restecg = restecg d"
| "getf d K_thalach = thalach d"
| "getf d K_exang = exang d"
| "getf d K_oldpeak = oldpeak d"
| "getf d K_slope = slope d"
| "getf d K_ca = ca d"
| "getf d K_thal = thal d"
| "getf d K_target = target d"

text \<open>The response body of \<^verbatim>\<open>/predict\<close>, with the \<^verbatim>\<open>error\<close> field the failure path reads.\<close>

record predict_data =
  error :: "string option"
  prediction :: int
  probability :: "rat option"
  model :: string
  record_id :: "string option"

record form_state =
  currentStep :: int
  formData :: FormData
  result :: "predict_data option"
  loading :: bool

definition totalSteps :: int where
  "totalSteps = 6"


text \<open>
  \<^verbatim>\<open>nextStep\<close> and \<^verbatim>\<open>prevStep\<close> are closures of one render. Their guard reads the
  \<^verbatim>\<open>currentStep\<close> that render saw (\<open>rendered\<close>); their update, \<^verbatim>\<open>prev => prev + 1\<close> or
  \<^verbatim>\<open>prev => prev - 1\<close>, is applied to the pending state, which is no longer the rendered
  one when an earlier handler of the same render has queued an update.
\<close>

definition nextStep :: "int \<Rightarrow> form_state \<Rightarrow> form_state" where
  "nextStep rendered st =
     (if rendered < totalSteps then st\<lparr>currentStep := currentStep st + 1\<rparr> else st)"

definition prevStep :: "int \<Rightarrow> form_state \<Rightarrow> form_state" where
  "prevStep rendered st =
     (if rendered > 1 then st\<lparr>currentStep := currentStep st - 1\<rparr> else st)"

text \<open>A click on one of the two navigation buttons.\<close>

datatype nav = Advance | Retreat

fun navigate_step :: "int \<Rightarrow> form_state \<Rightarrow> nav \<Rightarrow> form_state" where
  "navigate_step rendered st Advance = nextStep rendered st"
| "navigate_step rendered st Retreat = prevStep rendered st"

text \<open>
  The clicks that one render handles before the component renders again, in order: every
  handler is a closure of that render. Then the renders of a session one after another,
  each starting from the state the previous one left.
\<close>

definition run_render :: "nav list \<Rightarrow> form_state \<Rightarrow> form_state" where
  "run_render clicks st = foldl (navigate_step (currentStep st)) st clicks"

definition run_nav :: "nav list list \<Rightarrow> form_state \<Rightarrow> form_state" where
  "run_nav renders st = foldl (\<lambda>s clicks. run_render clicks s) st renders"

definition requiredFields :: "key list" where
  "requiredFields = [K_age, K_sex, K_cp, K_trestbps, K_chol, K_fbs, K_restecg,
     K_thalach, K_exang, K_oldpeak, K_slope, K_ca, K_thal]"

definition missingRequired :: "FormData \<Rightarrow> key list" where
  "missingRequired d =
     filter (\<lambda>f. getf d f = EmptyStr \<or> getf d f = Null \<or> getf d f = Undefined) requiredFields"

text \<open>
  \<^verbatim>\<open>val === "" || val === null || val === undefined ? null : Number(val)\<close>;
  \<^verbatim>\<open>Number\<close> of a number is that number, \<^verbatim>\<open>null\<close> is \<open>None\<close>.
\<close>

fun payload_value :: "fval \<Rightarrow> rat option" where
  "payload_value EmptyStr = None"
| "payload_value Null = None"
| "payload_value Undefined = None"
| "payload_value (Num x) = Some x"

text \<open>
  The payload object, filled by \<^verbatim>\<open>requiredFields.forEach((f) => { payload[f] = ... })\<close>:
  a map from keys to \<^verbatim>\<open>number | null\<close>. \<^verbatim>\<open>JSON.stringify(payload)\<close> is the request body;
  the model keeps the object, not its text.
\<close>

definition build_payload :: "FormData \<Rightarrow> (key \<rightharpoonup> rat option)" where
  "build_payload d =
     foldl (\<lambda>payload f. payload(f \<mapsto> payload_value (getf d f))) Map.empty requiredFields"

datatype form_effect =
    Alert string
  | Fetch string "key \<rightharpoonup> rat option"
  | ConsoleError string
  | ScrollToTop

definition is_fetch :: "form_effect \<Rightarrow> bool" where
  "is_fetch e = (case e of Fetch url body \<Rightarrow> True | _ \<Rightarrow> False)"

text \<open>
  \<^verbatim>\<open>handleSubmit\<close> of the intake form, run to completion against one outcome of its
  request: the state after it and the effects it performed, in order. \<open>API_BASE\<close> comes
  from the build environment. A body that does not parse makes \<^verbatim>\<open>res.json()\<close> reject,
  which the \<^verbatim>\<open>catch\<close> block handles like a transport failure.
\<close>

definition handleSubmit ::
  "string \<Rightarrow> form_state \<Rightarrow> predict_data fetch_outcome \<Rightarrow> form_state \<times> form_effect list" where
  "handleSubmit API_BASE st outcome =
     (if length (missingRequired (formData st)) > 0 then
        (st, [Alert (''Please fill required fields before submitting: '' @
                     join '', '' (map key_name (missingRequired (formData st))))])
      else
        let st1 = st\<lparr>loading := True\<rparr>;
            st2 = st1\<lparr>result := None\<rparr>;
            payload = build_payload (formData st);
            request = Fetch (API_BASE @ ''/predict'') payload;
            caught = (st2\<lparr>loading := False\<rparr>,
                      [request, ConsoleError ''Fetch error:'',
                       Alert ''Failed to connect to server. Make sure the backend is running.''])
        in (case outcome of
              Rejected \<Rightarrow> caught
            | Response ok None \<Rightarrow> caught
            | Response ok (Some data) \<Rightarrow>
                if \<not> ok then
                  (st2\<lparr>loading := False\<rparr>,
                   [request, ConsoleError ''Server error:'',
                    Alert (or_else (error data) ''Server returned an error'')])
                else
                  (st2\<lparr>result := Some data, loading := False\<rparr>, [request, ScrollToTop])))"

section \<open>Doctor dashboard (DoctorDashboard)\<close>

text \<open>
  A value read from a stored record: a JSON number, \<^verbatim>\<open>null\<close>, or \<^verbatim>\<open>undefined\<close> for a
  property that is not there. The records are written by the backend from the numeric
  payload above; strings and nested vals in these fields are outside the model.
\<close>

datatype jsval = JUndefined | JNull | JNum rat

text \<open>\<open>rec_id\<close> is the source's \<^verbatim>\<open>_id\<close>; \<open>rec_input = None\<close> is a null or missing \<^verbatim>\<open>input\<close>.\<close>

record RecordType =
  rec_id :: string
  rec_input :: "(string \<rightharpoonup> jsval) option"
  rec_prediction :: int
  rec_probability :: jsval
  rec_model :: string
  rec_timestamp :: "string option"

text \<open>\<^verbatim>\<open>ToNumber\<close>: \<open>None\<close> is NaN.\<close>

fun to_number :: "jsval \<Rightarrow> rat option" where
  "to_number JUndefined = None"
| "to_number JNull = Some 0"
| "to_number (JNum x) = Some x"

text \<open>\<^verbatim>\<open>v >= c\<close> for a numeric literal \<open>c\<close>: false when \<open>v\<close> converts to NaN.\<close>

definition js_ge :: "jsval \<Rightarrow> rat \<Rightarrow> bool" where
  "js_ge v c = (case to_number v of None \<Rightarrow> False | Some x \<Rightarrow> x \<ge> c)"

text \<open>Property access \<^verbatim>\<open>obj.k\<close> on a plain object.\<close>

definition get_prop :: "(string \<rightharpoonup> jsval) \<Rightarrow> string \<Rightarrow> jsval" where
  "get_prop obj k = (case obj k of None \<Rightarrow> JUndefined | Some v \<Rightarrow> v)"

text \<open>\<^verbatim>\<open>if (c) sug.push(s)\<close> and \<^verbatim>\<open>xs.slice(a, b)\<close> for \<open>0 \<le> a \<le> b\<close>.\<close>

definition push_if :: "bool \<Rightarrow> string \<Rightarrow> string list \<Rightarrow> string list" where
  "push_if c s sug = (if c then sug @ [s] else sug)"

definition slice :: "nat \<Rightarrow> nat \<Rightarrow> 'a list \<Rightarrow> 'a list" where
  "slice a b xs = take (b - a) (drop a xs)"

text \<open>The em dash U+2014 of the canned sentences, as its three UTF-8 bytes.\<close>

definition em_dash :: string where
  "em_dash = [CHR 0xE2, CHR 0x80, CHR 0x94]"

definition s_chol :: string where
  "s_chol = ''High cholesterol '' @ em_dash @ '' suggest lipid profile & diet change.''"

definition s_bp :: string where
  "s_bp = ''High BP '' @ em_dash @ '' consider antihypertensive review.''"

definition s_st :: string where
  "s_st = ''Significant ST depression '' @ em_dash @ '' cardiology consultation recommended.''"

definition s_prob :: string where
  "s_prob = ''High model probability '' @ em_dash @ '' prioritize follow-up soon.''"

definition aiSuggestion :: "string \<Rightarrow> RecordType list \<Rightarrow> string" where
  "aiSuggestion selectedId records =
     (if selectedId = [] then []
      else
        case find (\<lambda>x. rec_id x = selectedId) records of
          None \<Rightarrow> []
        | Some rec \<Rightarrow>
            let inp = (case rec_input rec of None \<Rightarrow> Map.empty | Some i \<Rightarrow> i);
                sug0 = [];
                sug1 = push_if (js_ge (get_prop inp ''chol'') 240) s_chol sug0;
                sug2 = push_if (js_ge (get_prop inp ''trestbps'') 140) s_bp sug1;
                sug3 = push_if (js_ge (get_prop inp ''oldpeak'') 2.0) s_st sug2;
                sug4 = push_if (js_ge (rec_probability rec) 0.8) s_prob sug3
            in join '' '' (slice 0 4 sug4))"

text \<open>
  The advisory text as the specification words it: four rules in fixed order, each a
  threshold on a field of the record and a sentence; the sentences of the rules that are
  met, joined by single spaces. A threshold is met when the field holds a number at least
  as large.
\<close>

definition field_of :: "RecordType \<Rightarrow> string \<Rightarrow> jsval" where
  "field_of r k = (case rec_input r of None \<Rightarrow> JUndefined | Some i \<Rightarrow> get_prop i k)"

fun meets :: "jsval \<Rightarrow> rat \<Rightarrow> bool" where
  "meets (JNum x) c = (c \<le> x)"
| "meets JNull c = False"
| "meets JUndefined c = False"

definition spec_rules :: "RecordType \<Rightarrow> (bool \<times> string) list" where
  "spec_rules r =
     [(meets (field_of r ''chol'') 240, s_chol),
      (meets (field_of r ''trestbps'') 140, s_bp),
      (meets (field_of r ''oldpeak'') 2.0, s_st),
      (meets (rec_probability r) 0.8, s_prob)]"

definition spec_sentences :: "RecordType \<Rightarrow> string list" where
  "spec_sentences r = map snd (filter fst (spec_rules r))"

definition spec_advisory :: "RecordType \<Rightarrow> string" where
  "spec_advisory r = join '' '' (spec_sentences r)"

text \<open>
  \<^verbatim>\<open>String.prototype.trim\<close> removes white space and line terminators from both ends:
  U+0009 to U+000D and U+0020 (one byte each), U+00A0 (two bytes in UTF-8), and U+1680,
  U+2000 to U+200A, U+2028, U+2029, U+202F, U+205F, U+3000 and U+FEFF (three bytes each).
\<close>

definition ws1 :: "char \<Rightarrow> bool" where
  "ws1 a = (a \<in> set [CHR 0x09, CHR 0x0A, CHR 0x0B, CHR 0x0C, CHR 0x0D, CHR 0x20])"

definition ws2 :: "char \<Rightarrow> char \<Rightarrow> bool" where
  "ws2 a b = (a = CHR 0xC2 \<and> b = CHR 0xA0)"

definition ws3 :: "char \<Rightarrow> char \<Rightarrow> char \<Rightarrow> bool" where
  "ws3 a b c =
     ((a = CHR 0xE1 \<and> b = CHR 0x9A \<and> c = CHR 0x80)
      \<or> (a = CHR 0xE2 \<and> b = CHR 0x80 \<and>
          c \<in> set [CHR 0x80, CHR 0x81, CHR 0x82, CHR 0x83, CHR 0x84, CHR 0x85, CHR 0x86,
                    CHR 0x87, CHR 0x88, CHR 0x89, CHR 0x8A, CHR 0xA8, CHR 0xA9, CHR 0xAF])
      \<or> (a = CHR 0xE2 \<and> b = CHR 0x81 \<and> c = CHR 0x9F)
      \<or> (a = CHR 0xE3 \<and> b = CHR 0x80 \<and> c = CHR 0x80)
      \<or> (a = CHR 0xEF \<and> b = CHR 0xBB \<and> c = CHR 0xBF))"

text \<open>
  Dropping leading white space, with the tests for two and three bytes as parameters so
  that the same function serves the reversed string.
\<close>

fun strip_ws ::
  "(char \<Rightarrow> char \<Rightarrow> bool) \<Rightarrow> (char \<Rightarrow> char \<Rightarrow> char \<Rightarrow> bool) \<Rightarrow> string \<Rightarrow> string" where
  "strip_ws p2 p3 [] = []"
| "strip_ws p2 p3 (a # s) =
     (if ws1 a then strip_ws p2 p3 s
      else case s of
             [] \<Rightarrow> [a]
           | b # t \<Rightarrow>
               if p2 a b then strip_ws p2 p3 t
               else (case t of
                       [] \<Rightarrow> a # s
                     | c # u \<Rightarrow> if p3 a b c then strip_ws p2 p3 u else a # s))"

definition trimStart :: "string \<Rightarrow> string" where
  "trimStart s = strip_ws ws2 ws3 s"

definition trimEnd :: "string \<Rightarrow> string" where
  "trimEnd s = rev (strip_ws (\<lambda>b a. ws2 a b) (\<lambda>c b a. ws3 a b c) (rev s))"

definition trim :: "string \<Rightarrow> string" where
  "trim s = trimEnd (trimStart s)"

record dash_state =
  records :: "RecordType list"
  dash_loading :: bool
  selectedId :: string
  notesText :: string
  saving :: bool
  message :: "string option"

text \<open>The request body; \<open>note_text\<close> is its \<^verbatim>\<open>note\<close> property.\<close>

record note_body =
  doctor :: string
  note_text :: string
  suggested_by_ai :: string

datatype dash_effect = PostNote string note_body

text \<open>
  \<^verbatim>\<open>saveNote\<close>, run to completion against one outcome of its request. The parsed body is
  not read, so it is a \<^typ>\<open>unit\<close>; a body that does not parse makes \<^verbatim>\<open>res.json()\<close>
  reject and lands in the \<^verbatim>\<open>catch\<close> block.
\<close>

definition saveNote :: "dash_state \<Rightarrow> unit fetch_outcome \<Rightarrow> dash_state \<times> dash_effect list" where
  "saveNote st outcome =
     (if selectedId st = [] then (st\<lparr>message := Some ''Select a record first.''\<rparr>, [])
      else if trim (notesText st) = [] then (st\<lparr>message := Some ''Write a note first.''\<rparr>, [])
      else
        let st1 = st\<lparr>saving := True\<rparr>;
            request = PostNote (''http://127.0.0.1:5001/records/'' @ selectedId st @ ''/notes'')
                        \<lparr> doctor = ''doctor'', note_text = notesText st,
                          suggested_by_ai = aiSuggestion (selectedId st) (records st) \<rparr>;
            caught = (st1\<lparr>message := Some ''Network error while saving note.'', saving := False\<rparr>,
                      [request])
        in (case outcome of
              Rejected \<Rightarrow> caught
            | Response ok None \<Rightarrow> caught
            | Response ok (Some data) \<Rightarrow>
                if \<not> ok then (st1\<lparr>message := Some ''Failed to save note'', saving := False\<rparr>, [request])
                else (st1\<lparr>message := Some ''Note saved successfully'', saving := False\<rparr>, [request])))"

section \<open>Doctor login (DoctorLogin)\<close>

record login_state =
  email :: string
  password :: string
  showPwd :: bool
  login_loading :: bool
  login_error :: "string option"
  remember :: bool

text \<open>
  The parsed response body. \<open>user\<close> is the user object, kept as an opaque text;
  \<open>next_path\<close> is the \<^verbatim>\<open>next\<close> property, \<open>resp_error\<close> and \<open>resp_message\<close> are
  \<^verbatim>\<open>error\<close> and \<^verbatim>\<open>message\<close>. An absent \<^verbatim>\<open>ok\<close> is \<open>False\<close>.
\<close>

record login_data =
  token :: "string option"
  user :: "string option"
  ok :: bool
  username :: "string option"
  next_path :: "string option"
  resp_error :: "string option"
  resp_message :: "string option"

text \<open>The \<^verbatim>\<open>{}\<close> that \<^verbatim>\<open>res.json().catch(() => ({}))\<close> yields for a body that does not parse.\<close>

definition empty_login_data :: login_data where
  "empty_login_data = \<lparr> token = None, user = None, ok = False, username = None,
     next_path = None, resp_error = None, resp_message = None \<rparr>"

text \<open>
  What is written to browser storage: a plain string, \<^verbatim>\<open>JSON.stringify\<close> of the user
  object, of \<^verbatim>\<open>{ username: s }\<close>, or of \<^verbatim>\<open>{}\<close>.
\<close>

datatype stored = Str string | UserJson string | UsernameJson string | EmptyObjJson

record browser =
  localStorage :: "string \<rightharpoonup> stored"
  sessionStorage :: "string \<rightharpoonup> stored"

datatype login_effect =
    Post string "(string \<times> string) list"
  | Navigate string
  | LoginConsoleError

definition is_post :: "login_effect \<Rightarrow> bool" where
  "is_post e = (case e of Post url body \<Rightarrow> True | _ \<Rightarrow> False)"

definition dashboard_path :: string where
  "dashboard_path = ''/doctor/dashboard''"

definition validate :: "login_state \<Rightarrow> string option" where
  "validate st =
     (if email st = [] then Some ''Please enter email or username.''
      else if password st = [] then Some ''Please enter password.''
      else None)"

text \<open>
  \<^verbatim>\<open>if (remember) localStorage.setItem("authToken", data.token); else
  sessionStorage.setItem("authToken", data.token);\<close>, which both login pages contain.
\<close>

definition store_token :: "bool \<Rightarrow> string \<Rightarrow> browser \<Rightarrow> browser" where
  "store_token rem tok br =
     (if rem then br\<lparr>localStorage := (localStorage br)(''authToken'' \<mapsto> Str tok)\<rparr>
      else br\<lparr>sessionStorage := (sessionStorage br)(''authToken'' \<mapsto> Str tok)\<rparr>)"

text \<open>
  \<^verbatim>\<open>handleSubmit\<close> of the login page that posts to \<^verbatim>\<open>/auth/login-file\<close>, run to
  completion against one outcome of its request: the component state, the browser
  storage and the effects, in order.
\<close>

definition login_handleSubmit ::
  "string \<Rightarrow> login_state \<Rightarrow> browser \<Rightarrow> login_data fetch_outcome
     \<Rightarrow> login_state \<times> browser \<times> login_effect list" where
  "login_handleSubmit API_BASE st br outcome =
     (let st0 = st\<lparr>login_error := None\<rparr> in
      case validate st of
        Some v \<Rightarrow> (st0\<lparr>login_error := Some v\<rparr>, br, [])
      | None \<Rightarrow>
          let st1 = st0\<lparr>login_loading := True\<rparr>;
              request = Post (API_BASE @ ''/auth/login-file'')
                          [(''username'', trim (email st)), (''password'', password st)]
          in (case outcome of
                Rejected \<Rightarrow>
                  (st1\<lparr>login_error := Some ''Network error while logging in. Is the backend running?'',
                       login_loading := False\<rparr>, br, [request, LoginConsoleError])
              | Response res_ok body \<Rightarrow>
                  let data = (case body of None \<Rightarrow> empty_login_data | Some d \<Rightarrow> d) in
                  if \<not> res_ok then
                    (st1\<lparr>login_error := Some (or_else (resp_error data)
                            (or_else (resp_message data) ''Login failed. Check credentials.'')),
                         login_loading := False\<rparr>, br, [request])
                  else if truthy (token data) then
                    let br1 = store_token (remember st) (the (token data)) br;
                        br2 = (case user data of
                                 None \<Rightarrow> br1
                               | Some u \<Rightarrow> br1\<lparr>localStorage := (localStorage br1)(''authUser'' \<mapsto> UserJson u)\<rparr>)
                    in (st1\<lparr>login_loading := False\<rparr>, br2, [request, Navigate dashboard_path])
                  else if ok data \<or> truthy (username data) then
                    let br1 = br\<lparr>localStorage := (localStorage br)(''authUser'' \<mapsto>
                                  UsernameJson (or_else (username data) (trim (email st))))\<rparr>;
                        br2 = (if remember st
                               then br1\<lparr>localStorage := (localStorage br1)(''authRemember'' \<mapsto> Str ''1'')\<rparr>
                               else br1\<lparr>sessionStorage := (sessionStorage br1)(''authRemember'' \<mapsto> Str ''1'')\<rparr>);
                        next = or_else (next_path data) dashboard_path
                    in (st1\<lparr>login_loading := False\<rparr>, br2, [request, Navigate next])
                  else
                    (st1\<lparr>login_error := Some ''Login succeeded but response shape unexpected. Check backend.'',
                         login_loading := False\<rparr>, br, [request])))"

text \<open>
  \<^verbatim>\<open>handleSubmit\<close> of the login page that posts to \<^verbatim>\<open>/auth/login\<close> and expects
  \<^verbatim>\<open>{ token, user }\<close>.
\<close>

definition login_handleSubmit_v2 ::
  "login_state \<Rightarrow> browser \<Rightarrow> login_data fetch_outcome
     \<Rightarrow> login_state \<times> browser \<times> login_effect list" where
  "login_handleSubmit_v2 st br outcome =
     (let st0 = st\<lparr>login_error := None\<rparr> in
      case validate st of
        Some v \<Rightarrow> (st0\<lparr>login_error := Some v\<rparr>, br, [])
      | None \<Rightarrow>
          let st1 = st0\<lparr>login_loading := True\<rparr>;
              request = Post ''http://127.0.0.1:5001/auth/login''
                          [(''email'', trim (email st)), (''password'', password st)]
          in (case outcome of
                Rejected \<Rightarrow>
                  (st1\<lparr>login_error := Some ''Network error while logging in. Is the backend running?'',
                       login_loading := False\<rparr>, br, [request, LoginConsoleError])
              | Response res_ok body \<Rightarrow>
                  let data = (case body of None \<Rightarrow> empty_login_data | Some d \<Rightarrow> d) in
                  if \<not> res_ok then
                    (st1\<lparr>login_error := Some (or_else (resp_message data)
                            (or_else (resp_error data) ''Login failed. Check credentials.'')),
                         login_loading := False\<rparr>, br, [request])
                  else if \<not> truthy (token data) then
                    (st1\<lparr>login_error := Some ''Login succeeded but token missing. Check backend.'',
                         login_loading := False\<rparr>, br, [request])
                  else
                    let br1 = store_token (remember st) (the (token data)) br;
                        br2 = br1\<lparr>localStorage := (localStorage br1)(''authUser'' \<mapsto>
                                  (case user data of None \<Rightarrow> EmptyObjJson | Some u \<Rightarrow> UserJson u))\<rparr>
                    in (st1\<lparr>login_loading := False\<rparr>, br2, [request, Navigate dashboard_path])))"

section \<open>Concrete inputs\<close>

text \<open>A completed intake form, one with two fields left empty, and states around them.\<close>

definition filled_form :: FormData where
  "filled_form = \<lparr> age = Num 54, sex = Num 1, cp = Num 2, trestbps = Num 130,
     chol = Num 250, fbs = Num 0, restecg = Num 1, thalach = Num 150,
     exang = Num 0, oldpeak = Num 1.5, slope = Num 1, ca = Num 0,
     thal = Num 2, target = EmptyStr \<rparr>"

definition partial_form :: FormData where
  "partial_form = filled_form\<lparr>sex := EmptyStr, thal := EmptyStr\<rparr>"

definition earlier_result :: predict_data where
  "earlier_result = \<lparr> error = None, prediction = 1, probability = Some 0.9,
     model = ''random_forest'', record_id = Some ''665f1c'' \<rparr>"

definition server_refusal :: predict_data where
  "server_refusal = \<lparr> error = Some ''model not loaded'', prediction = 0, probability = None,
     model = [], record_id = None \<rparr>"

definition shown_state :: form_state where
  "shown_state = \<lparr> currentStep = 6, formData = filled_form,
     result = Some earlier_result, loading = False \<rparr>"

definition partial_state :: form_state where
  "partial_state = \<lparr> currentStep = 6, formData = partial_form, result = None, loading = False \<rparr>"


text \<open>Stored records: the specification's example, one that meets all four thresholds, one
  without a probability.\<close>

definition rec_chol_only :: RecordType where
  "rec_chol_only = \<lparr> rec_id = ''r1'',
     rec_input = Some [''chol'' \<mapsto> JNum 250, ''trestbps'' \<mapsto> JNum 130, ''oldpeak'' \<mapsto> JNum 1.0],
     rec_prediction = 0, rec_probability = JNum 0.5, rec_model = ''random_forest'',
     rec_timestamp = None \<rparr>"

definition rec_all_four :: RecordType where
  "rec_all_four = \<lparr> rec_id = ''r2'',
     rec_input = Some [''chol'' \<mapsto> JNum 260, ''trestbps'' \<mapsto> JNum 150, ''oldpeak'' \<mapsto> JNum 2.5],
     rec_prediction = 1, rec_probability = JNum 0.9, rec_model = ''random_forest'',
     rec_timestamp = None \<rparr>"

definition rec_null_prob :: RecordType where
  "rec_null_prob = \<lparr> rec_id = ''r3'',
     rec_input = Some [''chol'' \<mapsto> JNum 260, ''trestbps'' \<mapsto> JNum 120, ''oldpeak'' \<mapsto> JNum 3],
     rec_prediction = 1, rec_probability = JNull, rec_model = ''svm'',
     rec_timestamp = None \<rparr>"

definition sample_records :: "RecordType list" where
  "sample_records = [rec_chol_only, rec_all_four, rec_null_prob]"

definition sample_dash :: dash_state where
  "sample_dash = \<lparr> records = sample_records, dash_loading = False, selectedId = ''r2'',
     notesText = ''review in two weeks'', saving = False, message = None \<rparr>"

text \<open>A login form as the demo button fills it, responses of both shapes, empty storage.\<close>

definition demo_login :: login_state where
  "demo_login = \<lparr> email = ''dr_raj'', password = ''mySecretPass123'', showPwd = False,
     login_loading = False, login_error = None, remember = True \<rparr>"

definition flag_response :: login_data where
  "flag_response = empty_login_data\<lparr>ok := True, username := Some ''dr_raj''\<rparr>"

definition token_response :: login_data where
  "token_response = empty_login_data\<lparr>token := Some ''tok-1'', user := Some ''{id: 1}''\<rparr>"

definition empty_browser :: browser where
  "empty_browser = \<lparr> localStorage = Map.empty, sessionStorage = Map.empty \<rparr>"

section \<open>Properties of the intake form\<close>

subsection \<open>Step navigation\<close>

text \<open>
  When every click is handled by a render of its own, guard and update see the same
  step, and the step stays between 1 and 6.
\<close>

lemma single_click_keeps_range:
  "1 \<le> currentStep st \<Longrightarrow> currentStep st \<le> 6 \<Longrightarrow>
   1 \<le> currentStep (run_render [a] st) \<and> currentStep (run_render [a] st) \<le> 6"
  by (cases a) (simp_all add: run_render_def nextStep_def prevStep_def totalSteps_def)

lemma single_click_renders_keep_range:
  "1 \<le> currentStep st \<Longrightarrow> currentStep st \<le> 6 \<Longrightarrow>
   1 \<le> currentStep (run_nav (map (\<lambda>a. [a]) ops) st)
   \<and> currentStep (run_nav (map (\<lambda>a. [a]) ops) st) \<le> 6"
proof (induction ops arbitrary: st)
  case Nil
  then show ?case by (simp add: run_nav_def)
next
  case (Cons a ops)
  from single_click_keeps_range [OF Cons.prems, of a]
  have "1 \<le> currentStep (run_render [a] st)" and "currentStep (run_render [a] st) \<le> 6"
    by simp_all
  from Cons.IH [OF this] show ?case by (simp add: run_nav_def)
qed


subsection \<open>Required fields and the submission gate\<close>

lemma unset_iff: "(v = EmptyStr \<or> v = Null \<or> v = Undefined) \<longleftrightarrow> (\<forall>x. v \<noteq> Num x)"
  by (cases v) simp_all

lemma required_keys: "set requiredFields = {f. f \<noteq> K_target}"
proof (rule set_eqI)
  fix f show "f \<in> set requiredFields \<longleftrightarrow> f \<in> {f. f \<noteq> K_target}"
    by (cases f) (simp_all add: requiredFields_def)
qed

lemma required_distinct: "distinct requiredFields" "length requiredFields = 13"
  by (simp_all add: requiredFields_def)

lemma missing_filter:
  "missingRequired d = filter (\<lambda>f. \<forall>x. getf d f \<noteq> Num x) requiredFields"
  unfolding missingRequired_def unset_iff ..

lemma missing_set:
  "set (missingRequired d) = {f. f \<noteq> K_target \<and> (\<forall>x. getf d f \<noteq> Num x)}"
  unfolding missing_filter set_filter required_keys by blast

lemma missing_distinct: "distinct (missingRequired d)"
  unfolding missing_filter by (rule distinct_filter) (rule required_distinct)

lemma missing_empty_iff:
  "missingRequired d = [] \<longleftrightarrow> (\<forall>f. f \<noteq> K_target \<longrightarrow> (\<exists>x. getf d f = Num x))"
proof -
  have "missingRequired d = [] \<longleftrightarrow> set (missingRequired d) = {}" by simp
  also have "\<dots> \<longleftrightarrow> (\<forall>f. f \<noteq> K_target \<longrightarrow> (\<exists>x. getf d f = Num x))"
    unfolding missing_set by blast
  finally show ?thesis .
qed

lemma submit_blocked:
  "missingRequired (formData st) \<noteq> [] \<Longrightarrow>
   handleSubmit base st outcome =
     (st, [Alert (''Please fill required fields before submitting: '' @
                  join '', '' (map key_name (missingRequired (formData st))))])"
  by (simp add: handleSubmit_def)

lemma submit_effects:
  "missingRequired (formData st) = [] \<Longrightarrow>
   \<exists>label msg rest. snd (handleSubmit base st outcome) =
      Fetch (base @ ''/predict'') (build_payload (formData st)) # rest
      \<and> (rest = [ConsoleError label, Alert msg] \<or> rest = [ScrollToTop])"
  by (cases outcome) (simp_all add: handleSubmit_def Let_def split: option.split)

lemma submit_one_fetch:
  assumes "missingRequired (formData st) = []"
  shows "length (filter is_fetch (snd (handleSubmit base st outcome))) = 1"
proof -
  from submit_effects [OF assms, of base outcome] obtain label msg rest where
    "snd (handleSubmit base st outcome) = Fetch (base @ ''/predict'') (build_payload (formData st)) # rest"
    and "rest = [ConsoleError label, Alert msg] \<or> rest = [ScrollToTop]"
    by blast
  then show ?thesis by (auto simp add: is_fetch_def)
qed

text \<open>
  C1. The missing-fields list holds exactly the required fields (every key but the
  optional target) that hold no number, each once. Submission issues a request if and
  only if that list is empty; when it is not, the submission leaves the state alone and
  its only effect is an alert that names the missing fields.
\<close>

theorem missing_fields_gate:
  "set (missingRequired (formData st)) =
      {f. f \<noteq> K_target \<and> (\<forall>x. getf (formData st) f \<noteq> Num x)}
   \<and> distinct (missingRequired (formData st))
   \<and> ((\<exists>e \<in> set (snd (handleSubmit base st outcome)). is_fetch e)
        \<longleftrightarrow> missingRequired (formData st) = [])
   \<and> (missingRequired (formData st) \<noteq> [] \<longrightarrow>
        handleSubmit base st outcome =
          (st, [Alert (''Please fill required fields before submitting: '' @
                       join '', '' (map key_name (missingRequired (formData st))))]))"
proof -
  have gate: "(\<exists>e \<in> set (snd (handleSubmit base st outcome)). is_fetch e)
        \<longleftrightarrow> missingRequired (formData st) = []"
  proof (cases "missingRequired (formData st) = []")
    case True
    from submit_one_fetch [OF True, of base outcome]
    have "filter is_fetch (snd (handleSubmit base st outcome)) \<noteq> []" by auto
    then have "\<exists>e \<in> set (snd (handleSubmit base st outcome)). is_fetch e"
      by (simp add: filter_empty_conv)
    with True show ?thesis by simp
  next
    case False
    then show ?thesis by (simp add: submit_blocked is_fetch_def)
  qed
  show ?thesis
    using missing_set [of "formData st"] missing_distinct [of "formData st"] gate
      submit_blocked [of st base outcome]
    by blast
qed

lemma partial_missing: "missingRequired partial_form = [K_sex, K_thal]"
  by (simp add: missingRequired_def requiredFields_def partial_form_def filled_form_def)

lemma filled_missing: "missingRequired filled_form = []"
  by (simp add: missingRequired_def requiredFields_def filled_form_def)

theorem missing_fields_gate_witness:
  "missingRequired (formData partial_state) = [K_sex, K_thal]
   \<and> handleSubmit ''http://api'' partial_state Rejected =
       (partial_state, [Alert ''Please fill required fields before submitting: sex, thal''])
   \<and> \<not> (\<exists>e \<in> set (snd (handleSubmit ''http://api'' partial_state Rejected)). is_fetch e)
   \<and> missingRequired (formData shown_state) = []
   \<and> (\<exists>e \<in> set (snd (handleSubmit ''http://api'' shown_state Rejected)). is_fetch e)"
proof -
  have p: "missingRequired (formData partial_state) = [K_sex, K_thal]"
    by (simp add: partial_state_def partial_missing)
  have f: "missingRequired (formData shown_state) = []"
    by (simp add: shown_state_def filled_missing)
  note blocked = missing_fields_gate [of partial_state "''http://api''" Rejected]
  note sent = missing_fields_gate [of shown_state "''http://api''" Rejected]
  from blocked p have "handleSubmit ''http://api'' partial_state Rejected =
       (partial_state, [Alert ''Please fill required fields before submitting: sex, thal''])"
    by simp
  moreover from blocked p
  have "\<not> (\<exists>e \<in> set (snd (handleSubmit ''http://api'' partial_state Rejected)). is_fetch e)"
    by simp
  moreover from sent f
  have "\<exists>e \<in> set (snd (handleSubmit ''http://api'' shown_state Rejected)). is_fetch e"
    by simp
  ultimately show ?thesis using p f by blast
qed


subsection \<open>The request payload\<close>

lemma foldl_upd:
  "foldl (\<lambda>m k. m(k \<mapsto> g k)) m0 ks = (\<lambda>k. if k \<in> set ks then Some (g k) else m0 k)"
  by (induction ks arbitrary: m0) (auto simp add: fun_eq_iff)

lemma build_payload_eq:
  "build_payload d = (\<lambda>f. if f = K_target then None else Some (payload_value (getf d f)))"
  unfolding build_payload_def foldl_upd required_keys by (simp add: fun_eq_iff)

lemma payload_dom: "dom (build_payload d) = {f. f \<noteq> K_target}"
  by (auto simp add: build_payload_eq dom_def)

lemma card_required: "card {f. f \<noteq> K_target} = 13"
proof -
  have "card (set requiredFields) = length requiredFields"
    by (rule distinct_card) (rule required_distinct)
  then show ?thesis by (simp add: required_keys required_distinct)
qed

text \<open>
  C7. When all thirteen required fields hold a number, the first effect of a submission
  is the request to the prediction endpoint and no further request follows. Its payload
  has exactly the thirteen required keys, the optional target is not among them, and
  every key carries the number held by its field.
\<close>

theorem payload_thirteen_numeric:
  assumes "\<forall>f. f \<noteq> K_target \<longrightarrow> (\<exists>x. getf (formData st) f = Num x)"
  shows "\<exists>payload rest. snd (handleSubmit base st outcome) = Fetch (base @ ''/predict'') payload # rest
     \<and> \<not> (\<exists>e \<in> set rest. is_fetch e)
     \<and> dom payload = set requiredFields
     \<and> card (dom payload) = 13
     \<and> K_target \<notin> dom payload
     \<and> (\<forall>f \<in> dom payload. \<exists>x. getf (formData st) f = Num x \<and> payload f = Some (Some x))"
proof -
  from assms have ready: "missingRequired (formData st) = []"
    by (simp add: missing_empty_iff)
  from submit_effects [OF ready, of base outcome] obtain label msg rest where
    eff: "snd (handleSubmit base st outcome) =
            Fetch (base @ ''/predict'') (build_payload (formData st)) # rest"
    and rest: "rest = [ConsoleError label, Alert msg] \<or> rest = [ScrollToTop]"
    by blast
  from rest have no_more: "\<not> (\<exists>e \<in> set rest. is_fetch e)"
    by (auto simp add: is_fetch_def)
  have vals: "\<forall>f \<in> dom (build_payload (formData st)).
      \<exists>x. getf (formData st) f = Num x \<and> build_payload (formData st) f = Some (Some x)"
  proof
    fix f assume "f \<in> dom (build_payload (formData st))"
    then have nt: "f \<noteq> K_target" by (simp add: payload_dom)
    with assms obtain x where "getf (formData st) f = Num x" by blast
    with nt show "\<exists>x. getf (formData st) f = Num x \<and> build_payload (formData st) f = Some (Some x)"
      by (simp add: build_payload_eq)
  qed
  from eff no_more vals show ?thesis
    by (simp add: payload_dom required_keys card_required)
qed

lemma filled_all_set: "\<forall>f. f \<noteq> K_target \<longrightarrow> (\<exists>x. getf (formData shown_state) f = Num x)"
  using filled_missing by (simp add: missing_empty_iff shown_state_def)

theorem payload_thirteen_numeric_witness:
  "missingRequired (formData shown_state) = []
   \<and> (\<exists>payload rest.
        snd (handleSubmit ''http://api'' shown_state (Response True (Some earlier_result))) =
          Fetch ''http://api/predict'' payload # rest
        \<and> payload K_chol = Some (Some 250) \<and> payload K_oldpeak = Some (Some 1.5)
        \<and> payload K_target = None \<and> card (dom payload) = 13)"
proof -
  from payload_thirteen_numeric [OF filled_all_set, of "''http://api''" "Response True (Some earlier_result)"]
  obtain payload rest where
    eff: "snd (handleSubmit ''http://api'' shown_state (Response True (Some earlier_result))) =
          Fetch (''http://api'' @ ''/predict'') payload # rest"
    and d: "dom payload = set requiredFields" "card (dom payload) = 13" "K_target \<notin> dom payload"
    and v: "\<forall>f \<in> dom payload. \<exists>x. getf (formData shown_state) f = Num x \<and> payload f = Some (Some x)"
    by blast
  from d have "K_chol \<in> dom payload" "K_oldpeak \<in> dom payload"
    by (simp_all add: requiredFields_def)
  then have "\<exists>x. getf (formData shown_state) K_chol = Num x \<and> payload K_chol = Some (Some x)"
    "\<exists>x. getf (formData shown_state) K_oldpeak = Num x \<and> payload K_oldpeak = Some (Some x)"
    using v by blast+
  then have "payload K_chol = Some (Some 250)" "payload K_oldpeak = Some (Some 1.5)"
    by (auto simp add: shown_state_def filled_form_def)
  moreover from d have "payload K_target = None" by blast
  moreover have "missingRequired (formData shown_state) = []"
    by (simp add: shown_state_def filled_missing)
  ultimately show ?thesis using eff d by auto
qed

subsection \<open>Failed submissions\<close>

text \<open>
  C6, as the code has it. A submission with all required fields set whose request fails
  (transport failure, unreadable body, or a response that is not ok) surfaces an alert,
  sends its request once, and leaves the thirteen field values and the current step as
  they were. The prediction result is not kept: the submission clears it before the
  request is sent, so after the failure no result is displayed, and the loading flag is
  off.
\<close>

theorem failed_submit_frame:
  assumes "\<forall>f. f \<noteq> K_target \<longrightarrow> (\<exists>x. getf (formData st) f = Num x)"
    and "\<forall>data. outcome \<noteq> Response True (Some data)"
  shows "fst (handleSubmit base st outcome) = st\<lparr>result := None, loading := False\<rparr>
     \<and> formData (fst (handleSubmit base st outcome)) = formData st
     \<and> currentStep (fst (handleSubmit base st outcome)) = currentStep st
     \<and> (\<exists>msg. Alert msg \<in> set (snd (handleSubmit base st outcome)))
     \<and> length (filter is_fetch (snd (handleSubmit base st outcome))) = 1"
proof -
  from assms(1) have ready: "missingRequired (formData st) = []"
    by (simp add: missing_empty_iff)
  have st': "fst (handleSubmit base st outcome) = st\<lparr>result := None, loading := False\<rparr>"
    using ready assms(2)
    by (cases outcome) (simp_all add: handleSubmit_def Let_def split: option.split)
  have alert: "\<exists>msg. Alert msg \<in> set (snd (handleSubmit base st outcome))"
    using ready assms(2)
    by (cases outcome) (auto simp add: handleSubmit_def Let_def split: option.split)
  from st' alert submit_one_fetch [OF ready, of base outcome] show ?thesis by simp
qed

text \<open>
  C6, as stated, fails: with a prediction on display, a submission whose request is
  rejected ends with a different (empty) result.
\<close>

theorem failed_submit_result_counterexample:
  "result (fst (handleSubmit ''http://api'' shown_state Rejected)) \<noteq> result shown_state"
  by (simp add: handleSubmit_def Let_def shown_state_def filled_missing)

theorem failed_submit_frame_witness:
  "missingRequired (formData shown_state) = []
   \<and> fst (handleSubmit ''http://api'' shown_state (Response False (Some server_refusal))) =
       shown_state\<lparr>result := None\<rparr>
   \<and> (\<exists>msg. Alert msg \<in> set (snd (handleSubmit ''http://api'' shown_state (Response False (Some server_refusal)))))"
proof -
  have o: "\<forall>data. Response False (Some server_refusal) \<noteq> Response True (Some data)" by simp
  from failed_submit_frame [OF filled_all_set o, of "''http://api''"]
  show ?thesis by (simp add: shown_state_def filled_missing)
qed


section \<open>Properties of the doctor dashboard\<close>

subsection \<open>The advisory text\<close>

lemma js_ge_meets: "0 < c \<Longrightarrow> js_ge v c = meets v c"
  by (cases v) (simp_all add: js_ge_def)

lemma pushes_filter:
  "slice 0 4 (push_if d s4 (push_if c s3 (push_if b s2 (push_if a s1 [])))) =
   map snd (filter fst [(a, s1), (b, s2), (c, s3), (d, s4)])"
  by (cases a; cases b; cases c; cases d; simp add: push_if_def slice_def)

lemma aiSuggestion_selected:
  assumes "sid \<noteq> []" and "find (\<lambda>x. rec_id x = sid) recs = Some r"
  shows "aiSuggestion sid recs =
    join '' '' (slice 0 4
      (push_if (js_ge (rec_probability r) 0.8) s_prob
        (push_if (js_ge (field_of r ''oldpeak'') 2.0) s_st
          (push_if (js_ge (field_of r ''trestbps'') 140) s_bp
            (push_if (js_ge (field_of r ''chol'') 240) s_chol [])))))"
proof (cases "rec_input r")
  case None
  with assms show ?thesis
    by (simp add: aiSuggestion_def field_of_def get_prop_def)
next
  case (Some i)
  with assms show ?thesis
    by (simp add: aiSuggestion_def field_of_def)
qed

lemma aiSuggestion_spec:
  assumes "sid \<noteq> []" and "find (\<lambda>x. rec_id x = sid) recs = Some r"
  shows "aiSuggestion sid recs = spec_advisory r"
proof -
  have t: "js_ge (field_of r ''chol'') 240 = meets (field_of r ''chol'') 240"
    "js_ge (field_of r ''trestbps'') 140 = meets (field_of r ''trestbps'') 140"
    "js_ge (field_of r ''oldpeak'') 2.0 = meets (field_of r ''oldpeak'') 2.0"
    "js_ge (rec_probability r) 0.8 = meets (rec_probability r) 0.8"
    by (rule js_ge_meets, simp)+
  show ?thesis
    unfolding aiSuggestion_selected [OF assms] pushes_filter t
    by (simp only: spec_advisory_def spec_sentences_def spec_rules_def)
qed

lemma spec_sentences_length: "length (spec_sentences r) \<le> 4"
proof -
  have "length (spec_sentences r) \<le> length (spec_rules r)"
    unfolding spec_sentences_def by simp
  then show ?thesis by (simp add: spec_rules_def)
qed

text \<open>
  C2. For the selected record (the first record of the list whose identifier is the
  selected one), the advisory text is the space-joined list of the sentences of those
  rules, in the order cholesterol, resting blood pressure, ST depression, model
  probability, whose threshold (240, 140, 2.0, 0.8) the record meets. It has at most four
  sentences and depends on nothing but that record; when all four thresholds are met it
  is the four sentences in that order.
\<close>

theorem advisory_matches_rules:
  assumes "sid \<noteq> []" and "find (\<lambda>x. rec_id x = sid) recs = Some r"
  shows "aiSuggestion sid recs = spec_advisory r
     \<and> length (spec_sentences r) \<le> 4
     \<and> (meets (field_of r ''chol'') 240 \<and> meets (field_of r ''trestbps'') 140
          \<and> meets (field_of r ''oldpeak'') 2.0 \<and> meets (rec_probability r) 0.8
        \<longrightarrow> aiSuggestion sid recs = s_chol @ '' '' @ s_bp @ '' '' @ s_st @ '' '' @ s_prob)"
proof -
  note eq = aiSuggestion_spec [OF assms]
  have "spec_advisory r = s_chol @ '' '' @ s_bp @ '' '' @ s_st @ '' '' @ s_prob"
    if "meets (field_of r ''chol'') 240" "meets (field_of r ''trestbps'') 140"
       "meets (field_of r ''oldpeak'') 2.0" "meets (rec_probability r) 0.8"
    using that by (simp add: spec_advisory_def spec_sentences_def spec_rules_def)
  with eq spec_sentences_length [of r] show ?thesis by simp
qed

lemma find_r1: "find (\<lambda>x. rec_id x = ''r1'') sample_records = Some rec_chol_only"
  by (simp add: sample_records_def rec_chol_only_def)

lemma find_r2: "find (\<lambda>x. rec_id x = ''r2'') sample_records = Some rec_all_four"
  by (simp add: sample_records_def rec_chol_only_def rec_all_four_def)

lemma find_r3: "find (\<lambda>x. rec_id x = ''r3'') sample_records = Some rec_null_prob"
  by (simp add: sample_records_def rec_chol_only_def rec_all_four_def rec_null_prob_def)

theorem advisory_matches_rules_witness:
  "''r1'' \<noteq> [] \<and> find (\<lambda>x. rec_id x = ''r1'') sample_records = Some rec_chol_only
   \<and> aiSuggestion ''r1'' sample_records = s_chol
   \<and> find (\<lambda>x. rec_id x = ''r2'') sample_records = Some rec_all_four
   \<and> aiSuggestion ''r2'' sample_records = s_chol @ '' '' @ s_bp @ '' '' @ s_st @ '' '' @ s_prob"
proof -
  have ne: "''r1'' \<noteq> []" "''r2'' \<noteq> []" by simp_all
  from advisory_matches_rules [OF ne(1) find_r1]
  have "aiSuggestion ''r1'' sample_records = spec_advisory rec_chol_only" by blast
  also have "\<dots> = s_chol"
    by (simp add: spec_advisory_def spec_sentences_def spec_rules_def field_of_def get_prop_def
        rec_chol_only_def)
  finally have one: "aiSuggestion ''r1'' sample_records = s_chol" .
  have "meets (field_of rec_all_four ''chol'') 240 \<and> meets (field_of rec_all_four ''trestbps'') 140
          \<and> meets (field_of rec_all_four ''oldpeak'') 2.0 \<and> meets (rec_probability rec_all_four) 0.8"
    by (simp add: field_of_def get_prop_def rec_all_four_def)
  with advisory_matches_rules [OF ne(2) find_r2]
  have four: "aiSuggestion ''r2'' sample_records = s_chol @ '' '' @ s_bp @ '' '' @ s_st @ '' '' @ s_prob"
    by blast
  from one four find_r1 find_r2 show ?thesis by simp
qed

lemma prob_sentence_apart:
  "list_all (\<lambda>xs. \<not> sublist s_prob (join '' '' xs)) (subseqs [s_chol, s_bp, s_st])"
  by code_simp

lemma three_rules_subseq:
  "map snd (filter fst [(a, s1), (b, s2), (c, s3)]) \<in> set (subseqs [s1, s2, s3])"
  by (cases a; cases b; cases c; simp add: Let_def)

lemma pushes_filter3:
  "slice 0 4 (push_if False s4 (push_if c s3 (push_if b s2 (push_if a s1 [])))) =
   map snd (filter fst [(a, s1), (b, s2), (c, s3)])"
  by (simp add: pushes_filter)

text \<open>
  C9. When the selected record's probability is \<^verbatim>\<open>null\<close>, the comparison with 0.8 is
  false (\<^verbatim>\<open>null\<close> converts to 0), so the advisory text is computed as usual and the
  high-model-probability sentence occurs nowhere in it.
\<close>

theorem null_probability_not_flagged:
  assumes "sid \<noteq> []" and "find (\<lambda>x. rec_id x = sid) recs = Some r"
    and "rec_probability r = JNull"
  shows "\<not> sublist s_prob (aiSuggestion sid recs)"
proof -
  have "js_ge (rec_probability r) 0.8 = False"
    using assms(3) by (simp add: js_ge_def)
  then have "aiSuggestion sid recs = join '' '' (map snd (filter fst
      [(js_ge (field_of r ''chol'') 240, s_chol), (js_ge (field_of r ''trestbps'') 140, s_bp),
       (js_ge (field_of r ''oldpeak'') 2.0, s_st)]))"
    unfolding aiSuggestion_selected [OF assms(1,2)] by (simp only: pushes_filter3)
  moreover have "\<forall>xs \<in> set (subseqs [s_chol, s_bp, s_st]). \<not> sublist s_prob (join '' '' xs)"
    using prob_sentence_apart by (simp only: list_all_iff)
  ultimately show ?thesis
    using three_rules_subseq by metis
qed

theorem null_probability_not_flagged_witness:
  "''r3'' \<noteq> [] \<and> find (\<lambda>x. rec_id x = ''r3'') sample_records = Some rec_null_prob
   \<and> rec_probability rec_null_prob = JNull
   \<and> \<not> sublist s_prob (aiSuggestion ''r3'' sample_records)"
proof -
  have ne: "''r3'' \<noteq> []" by simp
  have np: "rec_probability rec_null_prob = JNull" by (simp add: rec_null_prob_def)
  from null_probability_not_flagged [OF ne find_r3 np] ne find_r3 np show ?thesis by blast
qed

text \<open>
  C10. With no record selected (empty identifier), or with an identifier that no record
  of the list carries, the advisory text is the empty string.
\<close>

theorem advisory_empty_without_match:
  assumes "sid = [] \<or> (\<forall>r \<in> set recs. rec_id r \<noteq> sid)"
  shows "aiSuggestion sid recs = []"
proof (cases "sid = []")
  case True
  then show ?thesis by (simp add: aiSuggestion_def)
next
  case False
  with assms have "\<not> (\<exists>r. r \<in> set recs \<and> rec_id r = sid)" by blast
  then have "find (\<lambda>x. rec_id x = sid) recs = None"
    by (simp add: find_None_iff)
  then show ?thesis by (simp add: aiSuggestion_def)
qed

theorem advisory_empty_without_match_witness:
  "''r9'' \<notin> set (map rec_id sample_records)
   \<and> aiSuggestion ''r9'' sample_records = []
   \<and> aiSuggestion [] sample_records = []"
proof -
  have none: "\<forall>r \<in> set sample_records. rec_id r \<noteq> ''r9''"
    by (simp add: sample_records_def rec_chol_only_def rec_all_four_def rec_null_prob_def)
  then have "''r9'' = [] \<or> (\<forall>r \<in> set sample_records. rec_id r \<noteq> ''r9'')" ..
  from advisory_empty_without_match [OF this]
  have a: "aiSuggestion ''r9'' sample_records = []" .
  have "[] = ([]::string) \<or> (\<forall>r \<in> set sample_records. rec_id r \<noteq> [])" by simp
  from advisory_empty_without_match [OF this]
  have b: "aiSuggestion [] sample_records = []" .
  from none have "''r9'' \<notin> set (map rec_id sample_records)" by auto
  with a b show ?thesis by blast
qed


lemma saveNote_state:
  "\<exists>m s. fst (saveNote st outcome) = st\<lparr>message := Some m, saving := s\<rparr>"
proof -
  have unchanged: "st\<lparr>message := Some m, saving := saving st\<rparr> = st\<lparr>message := Some m\<rparr>" for m
    by simp
  show ?thesis
  proof (cases "selectedId st = [] \<or> trim (notesText st) = []")
    case True
    then have "fst (saveNote st outcome) = st\<lparr>message := Some ''Select a record first.''\<rparr>
        \<or> fst (saveNote st outcome) = st\<lparr>message := Some ''Write a note first.''\<rparr>"
      by (auto simp add: saveNote_def)
    with unchanged show ?thesis by metis
  next
    case False
    then have "\<exists>m. fst (saveNote st outcome) = st\<lparr>message := Some m, saving := False\<rparr>"
      by (cases outcome) (auto simp add: saveNote_def Let_def split: option.split)
    then show ?thesis by blast
  qed
qed

lemma saveNote_message:
  assumes "selectedId st \<noteq> []" and "trim (notesText st) \<noteq> []"
  shows "message (fst (saveNote st outcome)) =
     Some (if outcome = Response True (Some ()) then ''Note saved successfully''
           else if outcome = Response False (Some ()) then ''Failed to save note''
           else ''Network error while saving note.'')"
  using assms
  by (cases outcome) (auto simp add: saveNote_def Let_def split: option.split)

subsection \<open>Saving a note\<close>

text \<open>
  C8. Saving a note never changes the record list, whatever the request does: only the
  message and the saving flag of the dashboard state can change, and a message is always
  set. Once a record is selected and the note is not blank, the message is the
  confirmation for an ok response, the failure text for a response that is not ok, and
  the network error text otherwise.
\<close>

theorem saveNote_keeps_records:
  "records (fst (saveNote st outcome)) = records st
   \<and> (\<exists>m s. fst (saveNote st outcome) = st\<lparr>message := Some m, saving := s\<rparr>)
   \<and> (selectedId st \<noteq> [] \<and> trim (notesText st) \<noteq> [] \<longrightarrow>
        message (fst (saveNote st outcome)) =
          Some (if outcome = Response True (Some ()) then ''Note saved successfully''
                else if outcome = Response False (Some ()) then ''Failed to save note''
                else ''Network error while saving note.''))"
proof -
  from saveNote_state [of st outcome] obtain m s where
    eq: "fst (saveNote st outcome) = st\<lparr>message := Some m, saving := s\<rparr>" by blast
  then have "records (fst (saveNote st outcome)) = records st" by simp
  with saveNote_state [of st outcome] saveNote_message [of st outcome] show ?thesis by blast
qed

lemma sample_note_trim: "trim ''review in two weeks'' = ''review in two weeks''"
  by code_simp

lemma sample_note_ready: "selectedId sample_dash \<noteq> [] \<and> trim (notesText sample_dash) \<noteq> []"
  by (simp add: sample_dash_def sample_note_trim)

theorem saveNote_keeps_records_witness:
  "selectedId sample_dash \<noteq> [] \<and> trim (notesText sample_dash) \<noteq> []
   \<and> records (fst (saveNote sample_dash (Response True (Some ())))) = sample_records
   \<and> message (fst (saveNote sample_dash (Response True (Some ())))) = Some ''Note saved successfully''
   \<and> records (fst (saveNote sample_dash Rejected)) = sample_records
   \<and> message (fst (saveNote sample_dash Rejected)) = Some ''Network error while saving note.''"
proof -
  have r: "records sample_dash = sample_records" by (simp add: sample_dash_def)
  from saveNote_keeps_records [of sample_dash "Response True (Some ())"] sample_note_ready r
  have ok: "records (fst (saveNote sample_dash (Response True (Some ())))) = sample_records
     \<and> message (fst (saveNote sample_dash (Response True (Some ())))) = Some ''Note saved successfully''"
    by simp
  from saveNote_keeps_records [of sample_dash Rejected] sample_note_ready r
  have "records (fst (saveNote sample_dash Rejected)) = sample_records
     \<and> message (fst (saveNote sample_dash Rejected)) = Some ''Network error while saving note.''"
    by simp
  with ok sample_note_ready show ?thesis by blast
qed


section \<open>Properties of the doctor login\<close>

subsection \<open>Local validation\<close>

lemma login_blocked:
  assumes "email st = [] \<or> password st = []"
  shows "login_handleSubmit base st br outcome = (st\<lparr>login_error := validate st\<rparr>, br, [])"
    and "login_handleSubmit_v2 st br outcome = (st\<lparr>login_error := validate st\<rparr>, br, [])"
    and "validate st \<noteq> None"
  using assms
  by (auto simp add: login_handleSubmit_def login_handleSubmit_v2_def validate_def)

lemma login_posts:
  assumes "email st \<noteq> []" and "password st \<noteq> []"
  shows "\<exists>rest. snd (snd (login_handleSubmit base st br outcome)) =
           Post (base @ ''/auth/login-file'')
             [(''username'', trim (email st)), (''password'', password st)] # rest
           \<and> \<not> (\<exists>e \<in> set rest. is_post e)"
    and "\<exists>rest. snd (snd (login_handleSubmit_v2 st br outcome)) =
           Post ''http://127.0.0.1:5001/auth/login''
             [(''email'', trim (email st)), (''password'', password st)] # rest
           \<and> \<not> (\<exists>e \<in> set rest. is_post e)"
  using assms
  by (cases outcome;
      simp add: login_handleSubmit_def login_handleSubmit_v2_def validate_def Let_def is_post_def
        split: option.split)+

text \<open>
  C4. On both login pages a submission sends a request if and only if the email and the
  password are both non-empty: that is the whole of the local validation. With an empty
  email or an empty password nothing is sent, browser storage is untouched, and the only
  change is the validation message in the error field.
\<close>

theorem login_empty_credentials_no_request:
  "((\<exists>e \<in> set (snd (snd (login_handleSubmit base st br outcome))). is_post e)
      \<longleftrightarrow> email st \<noteq> [] \<and> password st \<noteq> [])
   \<and> ((\<exists>e \<in> set (snd (snd (login_handleSubmit_v2 st br outcome))). is_post e)
      \<longleftrightarrow> email st \<noteq> [] \<and> password st \<noteq> [])
   \<and> (email st = [] \<or> password st = [] \<longrightarrow>
        login_handleSubmit base st br outcome = (st\<lparr>login_error := validate st\<rparr>, br, [])
        \<and> login_handleSubmit_v2 st br outcome = (st\<lparr>login_error := validate st\<rparr>, br, [])
        \<and> validate st \<noteq> None)"
proof (cases "email st = [] \<or> password st = []")
  case True
  from login_blocked(1) [OF True, of base br outcome] login_blocked(2) [OF True, of br outcome]
    login_blocked(3) [OF True] True
  show ?thesis by auto
next
  case False
  then have ne: "email st \<noteq> []" "password st \<noteq> []" by simp_all
  from login_posts(1) [OF ne, of base br outcome] login_posts(2) [OF ne, of br outcome] have
    "\<exists>e \<in> set (snd (snd (login_handleSubmit base st br outcome))). is_post e"
    "\<exists>e \<in> set (snd (snd (login_handleSubmit_v2 st br outcome))). is_post e"
    by (auto simp add: is_post_def)
  with False show ?thesis by simp
qed

theorem login_empty_credentials_no_request_witness:
  "password (demo_login\<lparr>password := []\<rparr>) = []
   \<and> login_handleSubmit ''http://api'' (demo_login\<lparr>password := []\<rparr>) empty_browser Rejected =
       (demo_login\<lparr>password := [], login_error := Some ''Please enter password.''\<rparr>, empty_browser, [])
   \<and> login_handleSubmit_v2 (demo_login\<lparr>email := []\<rparr>) empty_browser Rejected =
       (demo_login\<lparr>email := [], login_error := Some ''Please enter email or username.''\<rparr>, empty_browser, [])
   \<and> (\<exists>e \<in> set (snd (snd (login_handleSubmit ''http://api'' demo_login empty_browser Rejected))). is_post e)"
proof -
  from login_empty_credentials_no_request
    [of "''http://api''" "demo_login\<lparr>password := []\<rparr>" empty_browser Rejected]
  have a: "login_handleSubmit ''http://api'' (demo_login\<lparr>password := []\<rparr>) empty_browser Rejected =
       (demo_login\<lparr>password := [], login_error := Some ''Please enter password.''\<rparr>, empty_browser, [])"
    by (simp add: validate_def demo_login_def)
  from login_empty_credentials_no_request
    [of "''http://api''" "demo_login\<lparr>email := []\<rparr>" empty_browser Rejected]
  have b: "login_handleSubmit_v2 (demo_login\<lparr>email := []\<rparr>) empty_browser Rejected =
       (demo_login\<lparr>email := [], login_error := Some ''Please enter email or username.''\<rparr>, empty_browser, [])"
    by (simp add: validate_def demo_login_def)
  from login_empty_credentials_no_request [of "''http://api''" demo_login empty_browser Rejected]
  have c: "\<exists>e \<in> set (snd (snd (login_handleSubmit ''http://api'' demo_login empty_browser Rejected))). is_post e"
    by (simp add: demo_login_def)
  from a b c show ?thesis by simp
qed


lemma login_token_v1:
  assumes "email st \<noteq> []" and "password st \<noteq> []" and "token d = Some tok" and "tok \<noteq> []"
  shows "snd (snd (login_handleSubmit base st br (Response True (Some d)))) =
           [Post (base @ ''/auth/login-file'')
              [(''username'', trim (email st)), (''password'', password st)],
            Navigate dashboard_path]"
    and "(if remember st then localStorage (fst (snd (login_handleSubmit base st br (Response True (Some d)))))
          else sessionStorage (fst (snd (login_handleSubmit base st br (Response True (Some d))))))
           ''authToken'' = Some (Str tok)"
  using assms
  by (simp_all add: login_handleSubmit_def validate_def Let_def truthy_def store_token_def
      split: option.split)

lemma login_token_v2:
  assumes "email st \<noteq> []" and "password st \<noteq> []" and "token d = Some tok" and "tok \<noteq> []"
  shows "snd (snd (login_handleSubmit_v2 st br (Response True (Some d)))) =
           [Post ''http://127.0.0.1:5001/auth/login''
              [(''email'', trim (email st)), (''password'', password st)],
            Navigate dashboard_path]"
    and "(if remember st then localStorage (fst (snd (login_handleSubmit_v2 st br (Response True (Some d)))))
          else sessionStorage (fst (snd (login_handleSubmit_v2 st br (Response True (Some d))))))
           ''authToken'' = Some (Str tok)"
  using assms
  by (simp_all add: login_handleSubmit_v2_def validate_def Let_def truthy_def store_token_def
      split: option.split)

lemma login_flag_v1:
  assumes "email st \<noteq> []" and "password st \<noteq> []"
    and "\<not> truthy (token d)" and "ok d \<or> truthy (username d)"
  shows "snd (snd (login_handleSubmit base st br (Response True (Some d)))) =
           [Post (base @ ''/auth/login-file'')
              [(''username'', trim (email st)), (''password'', password st)],
            Navigate (or_else (next_path d) dashboard_path)]"
    and "localStorage (fst (snd (login_handleSubmit base st br (Response True (Some d))))) ''authUser'' =
           Some (UsernameJson (or_else (username d) (trim (email st))))"
  using assms
  by (auto simp add: login_handleSubmit_def validate_def Let_def)

lemma login_flag_v2:
  assumes "email st \<noteq> []" and "password st \<noteq> []" and "\<not> truthy (token d)"
  shows "login_handleSubmit_v2 st br (Response True (Some d)) =
           (st\<lparr>login_error := Some ''Login succeeded but token missing. Check backend.'',
               login_loading := False\<rparr>, br,
            [Post ''http://127.0.0.1:5001/auth/login''
               [(''email'', trim (email st)), (''password'', password st)]])"
  using assms
  by (simp add: login_handleSubmit_v2_def validate_def Let_def)

subsection \<open>Successful responses\<close>

text \<open>
  C5, as the code has it. With both credentials entered and an ok response: a response
  that carries a token stores the token (in local storage when remember is set, in session
  storage otherwise) and navigates to \<^verbatim>\<open>/doctor/dashboard\<close>, on both login pages. A
  response without a token that carries the ok flag or a username is accepted by the page
  that posts to \<^verbatim>\<open>/auth/login-file\<close>: it stores the username (the trimmed email when
  the response has none) and navigates to the response's next target, or to
  \<^verbatim>\<open>/doctor/dashboard\<close> when there is none. The page that posts to \<^verbatim>\<open>/auth/login\<close>
  does not accept that shape: it sets an error, stores nothing and does not navigate.
\<close>

theorem login_success_shapes:
  assumes "email st \<noteq> []" and "password st \<noteq> []"
  shows
    "(token d = Some tok \<and> tok \<noteq> [] \<longrightarrow>
        snd (snd (login_handleSubmit base st br (Response True (Some d)))) =
          [Post (base @ ''/auth/login-file'')
             [(''username'', trim (email st)), (''password'', password st)],
           Navigate ''/doctor/dashboard'']
        \<and> (if remember st
            then localStorage (fst (snd (login_handleSubmit base st br (Response True (Some d)))))
            else sessionStorage (fst (snd (login_handleSubmit base st br (Response True (Some d))))))
             ''authToken'' = Some (Str tok)
        \<and> snd (snd (login_handleSubmit_v2 st br (Response True (Some d)))) =
          [Post ''http://127.0.0.1:5001/auth/login''
             [(''email'', trim (email st)), (''password'', password st)],
           Navigate ''/doctor/dashboard'']
        \<and> (if remember st
            then localStorage (fst (snd (login_handleSubmit_v2 st br (Response True (Some d)))))
            else sessionStorage (fst (snd (login_handleSubmit_v2 st br (Response True (Some d))))))
             ''authToken'' = Some (Str tok))
     \<and> (\<not> truthy (token d) \<and> (ok d \<or> truthy (username d)) \<longrightarrow>
        snd (snd (login_handleSubmit base st br (Response True (Some d)))) =
          [Post (base @ ''/auth/login-file'')
             [(''username'', trim (email st)), (''password'', password st)],
           Navigate (case next_path d of None \<Rightarrow> ''/doctor/dashboard''
                     | Some n \<Rightarrow> if n = [] then ''/doctor/dashboard'' else n)]
        \<and> localStorage (fst (snd (login_handleSubmit base st br (Response True (Some d))))) ''authUser'' =
             Some (UsernameJson (case username d of None \<Rightarrow> trim (email st)
                                 | Some u \<Rightarrow> if u = [] then trim (email st) else u))
        \<and> login_handleSubmit_v2 st br (Response True (Some d)) =
             (st\<lparr>login_error := Some ''Login succeeded but token missing. Check backend.'',
                 login_loading := False\<rparr>, br,
              [Post ''http://127.0.0.1:5001/auth/login''
                 [(''email'', trim (email st)), (''password'', password st)]]))"
proof -
  have tok1: "snd (snd (login_handleSubmit base st br (Response True (Some d)))) =
          [Post (base @ ''/auth/login-file'')
             [(''username'', trim (email st)), (''password'', password st)],
           Navigate ''/doctor/dashboard'']
        \<and> (if remember st
            then localStorage (fst (snd (login_handleSubmit base st br (Response True (Some d)))))
            else sessionStorage (fst (snd (login_handleSubmit base st br (Response True (Some d))))))
             ''authToken'' = Some (Str tok)"
    if "token d = Some tok" "tok \<noteq> []"
    using login_token_v1 [OF assms that, of base br] by (simp add: dashboard_path_def)
  have tok2: "snd (snd (login_handleSubmit_v2 st br (Response True (Some d)))) =
          [Post ''http://127.0.0.1:5001/auth/login''
             [(''email'', trim (email st)), (''password'', password st)],
           Navigate ''/doctor/dashboard'']
        \<and> (if remember st
            then localStorage (fst (snd (login_handleSubmit_v2 st br (Response True (Some d)))))
            else sessionStorage (fst (snd (login_handleSubmit_v2 st br (Response True (Some d))))))
             ''authToken'' = Some (Str tok)"
    if "token d = Some tok" "tok \<noteq> []"
    using login_token_v2 [OF assms that, of br] by (simp add: dashboard_path_def)
  have flag1: "snd (snd (login_handleSubmit base st br (Response True (Some d)))) =
          [Post (base @ ''/auth/login-file'')
             [(''username'', trim (email st)), (''password'', password st)],
           Navigate (case next_path d of None \<Rightarrow> ''/doctor/dashboard''
                     | Some n \<Rightarrow> if n = [] then ''/doctor/dashboard'' else n)]
        \<and> localStorage (fst (snd (login_handleSubmit base st br (Response True (Some d))))) ''authUser'' =
             Some (UsernameJson (case username d of None \<Rightarrow> trim (email st)
                                 | Some u \<Rightarrow> if u = [] then trim (email st) else u))"
    if "\<not> truthy (token d)" "ok d \<or> truthy (username d)"
    using login_flag_v1 [OF assms that, of base br] by (simp add: dashboard_path_def or_else_def)
  have flag2: "login_handleSubmit_v2 st br (Response True (Some d)) =
             (st\<lparr>login_error := Some ''Login succeeded but token missing. Check backend.'',
                 login_loading := False\<rparr>, br,
              [Post ''http://127.0.0.1:5001/auth/login''
                 [(''email'', trim (email st)), (''password'', password st)]])"
    if "\<not> truthy (token d)"
    using login_flag_v2 [OF assms that, of br] .
  from tok1 tok2 flag1 flag2 show ?thesis by blast
qed

text \<open>
  C5, as stated, fails on the login page that expects \<^verbatim>\<open>{ token, user }\<close>: the response
  \<^verbatim>\<open>{ ok: true, username: "dr_raj" }\<close> neither navigates nor stores anything there.
\<close>

theorem login_v2_flag_counterexample:
  "Navigate ''/doctor/dashboard'' \<notin>
     set (snd (snd (login_handleSubmit_v2 demo_login empty_browser (Response True (Some flag_response)))))
   \<and> fst (snd (login_handleSubmit_v2 demo_login empty_browser (Response True (Some flag_response))))
       = empty_browser"
  by (simp add: login_handleSubmit_v2_def validate_def Let_def truthy_def demo_login_def
      flag_response_def empty_login_data_def)

lemma demo_trim: "trim ''dr_raj'' = ''dr_raj''"
  by code_simp

theorem login_success_shapes_witness:
  "email demo_login \<noteq> [] \<and> password demo_login \<noteq> []
   \<and> snd (snd (login_handleSubmit ''http://api'' demo_login empty_browser (Response True (Some flag_response)))) =
       [Post ''http://api/auth/login-file'' [(''username'', ''dr_raj''), (''password'', ''mySecretPass123'')],
        Navigate ''/doctor/dashboard'']
   \<and> localStorage (fst (snd (login_handleSubmit ''http://api'' demo_login empty_browser
         (Response True (Some flag_response))))) ''authUser'' = Some (UsernameJson ''dr_raj'')
   \<and> snd (snd (login_handleSubmit ''http://api'' demo_login empty_browser (Response True (Some token_response)))) =
       [Post ''http://api/auth/login-file'' [(''username'', ''dr_raj''), (''password'', ''mySecretPass123'')],
        Navigate ''/doctor/dashboard'']
   \<and> localStorage (fst (snd (login_handleSubmit ''http://api'' demo_login empty_browser
         (Response True (Some token_response))))) ''authToken'' = Some (Str ''tok-1'')
   \<and> localStorage (fst (snd (login_handleSubmit_v2 demo_login empty_browser
         (Response True (Some token_response))))) ''authToken'' = Some (Str ''tok-1'')"
proof -
  have ne: "email demo_login \<noteq> []" "password demo_login \<noteq> []"
    by (simp_all add: demo_login_def)
  have flag: "\<not> truthy (token flag_response) \<and> (ok flag_response \<or> truthy (username flag_response))"
    by (simp add: flag_response_def empty_login_data_def truthy_def)
  have tok: "token token_response = Some ''tok-1'' \<and> ''tok-1'' \<noteq> []"
    by (simp add: token_response_def empty_login_data_def)
  have fields: "next_path flag_response = None" "username flag_response = Some ''dr_raj''"
    "email demo_login = ''dr_raj''" "password demo_login = ''mySecretPass123''" "remember demo_login"
    by (simp_all add: flag_response_def empty_login_data_def demo_login_def)
  from login_success_shapes
    [OF ne, of flag_response "''tok-1''" "''http://api''" empty_browser, THEN conjunct2, THEN mp, OF flag]
  have a: "snd (snd (login_handleSubmit ''http://api'' demo_login empty_browser (Response True (Some flag_response)))) =
       [Post ''http://api/auth/login-file'' [(''username'', ''dr_raj''), (''password'', ''mySecretPass123'')],
        Navigate ''/doctor/dashboard'']
   \<and> localStorage (fst (snd (login_handleSubmit ''http://api'' demo_login empty_browser
         (Response True (Some flag_response))))) ''authUser'' = Some (UsernameJson ''dr_raj'')"
    by (simp add: fields demo_trim)
  from login_success_shapes
    [OF ne, of token_response "''tok-1''" "''http://api''" empty_browser, THEN conjunct1, THEN mp, OF tok]
  have b: "snd (snd (login_handleSubmit ''http://api'' demo_login empty_browser (Response True (Some token_response)))) =
       [Post ''http://api/auth/login-file'' [(''username'', ''dr_raj''), (''password'', ''mySecretPass123'')],
        Navigate ''/doctor/dashboard'']
   \<and> localStorage (fst (snd (login_handleSubmit ''http://api'' demo_login empty_browser
         (Response True (Some token_response))))) ''authToken'' = Some (Str ''tok-1'')
   \<and> localStorage (fst (snd (login_handleSubmit_v2 demo_login empty_browser
         (Response True (Some token_response))))) ''authToken'' = Some (Str ''tok-1'')"
    by (simp add: fields demo_trim)
  from ne a b show ?thesis by simp
qed


end
